theory Spec2Isabelle
  imports Complex_Main "HOL-Library.Sublist"
begin

section \<open>Python values used by the pipeline\<close>

text \<open>
  A Python \<open>str\<close> is a \<^typ>\<open>string\<close>; an exception raised by a call is the
  \<open>Inl\<close> branch of a sum, so that every function that can raise returns
  \<open>py_exception + result\<close>. The exception carries its class name and the text
  \<open>str(e)\<close> yields.
\<close>

datatype py_exception = PyException string string

fun str_exception :: "py_exception \<Rightarrow> string" where
  "str_exception (PyException cls msg) = msg"

text \<open>
  \<open>str.isspace\<close> on the characters a \<^typ>\<open>char\<close> can hold (code points below 256):
  tab to carriage return, the four separators 0x1C to 0x1F, the blank, NEL and the
  no-break space.
\<close>

definition py_isspace :: "char \<Rightarrow> bool" where
  "py_isspace c = ((of_char c :: nat) \<in> {9, 10, 11, 12, 13, 28, 29, 30, 31, 32, 133, 160})"

definition lstrip :: "string \<Rightarrow> string" where
  "lstrip s = dropWhile py_isspace s"

definition rstrip :: "string \<Rightarrow> string" where
  "rstrip s = rev (dropWhile py_isspace (rev s))"

definition strip :: "string \<Rightarrow> string" where
  "strip s = rstrip (lstrip s)"

text \<open>\<open>sep.join(parts)\<close>.\<close>

fun join :: "string \<Rightarrow> string list \<Rightarrow> string" where
  "join sep [] = []"
| "join sep [x] = x"
| "join sep (x # y # ys) = x @ sep @ join sep (y # ys)"

text \<open>
  \<open>s.count(sub)\<close>: the occurrences of \<open>sub\<close> in \<open>s\<close>, scanned from the left without
  overlap; the empty \<open>sub\<close> is found between all characters and at both ends.
\<close>

function count_from :: "string \<Rightarrow> string \<Rightarrow> nat" where
  "count_from sub [] = 0"
| "count_from sub (c # cs) =
     (if sub \<noteq> [] \<and> prefix sub (c # cs)
      then Suc (count_from sub (drop (length sub) (c # cs)))
      else count_from sub cs)"
  by pat_completeness auto
termination
  by (relation "measure (\<lambda>(sub, s). length s)") auto

definition str_count :: "string \<Rightarrow> string \<Rightarrow> nat" where
  "str_count s sub = (if sub = [] then Suc (length s) else count_from sub s)"

text \<open>\<open>str(n)\<close> for an \<open>int\<close>: decimal digits, a minus sign in front of a negative.\<close>

definition digit_char :: "nat \<Rightarrow> char" where
  "digit_char d = ''0123456789'' ! d"

fun str_nat :: "nat \<Rightarrow> string" where
  "str_nat n = (if n < 10 then [digit_char n] else str_nat (n div 10) @ [digit_char (n mod 10)])"

definition str_int :: "int \<Rightarrow> string" where
  "str_int i = (if i < 0 then CHR ''-'' # str_nat (nat (- i)) else str_nat (nat i))"

text \<open>
  Python floats are modelled by exact rationals: the rounding of IEEE arithmetic in
  \<open>1 - d\<close> and in the scaling by 100 is not represented. \<open>format(x, '.2%')\<close> scales
  by 100, rounds to two decimals (ties to even) and appends the percent sign; a
  negative value keeps its sign even when it rounds to zero.
\<close>

definition round_half_even :: "rat \<Rightarrow> int" where
  "round_half_even q =
     (let f = \<lfloor>q\<rfloor>; r = q - of_int f
      in if r < 1 / 2 then f else if 1 / 2 < r then f + 1 else if even f then f else f + 1)"

definition format_percent :: "rat \<Rightarrow> string" where
  "format_percent x =
     (let n = nat (round_half_even (\<bar>x\<bar> * 10000))
      in (if x < 0 then ''-'' else []) @ str_nat (n div 100) @ ''.'' @
         [digit_char (n mod 100 div 10), digit_char (n mod 10)] @ ''%'')"

section \<open>Data model\<close>

text \<open>
  A \<open>uuid.UUID\<close> is identified with its canonical text, the value of \<open>str(u)\<close>
  and of an f-string: 32 lower-case hexadecimal digits in groups of 8, 4, 4, 4 and
  12, separated by hyphens. The type holds exactly these texts, so a string that is
  not a UUID is not a value of it.
\<close>

definition is_hex_char :: "char \<Rightarrow> bool" where
  "is_hex_char c = (c \<in> set ''0123456789abcdef'')"

definition is_uuid_text :: "string \<Rightarrow> bool" where
  "is_uuid_text s =
     (length s = 36 \<and>
      list_all is_hex_char (take 8 s) \<and> s ! 8 = CHR ''-'' \<and>
      list_all is_hex_char (take 4 (drop 9 s)) \<and> s ! 13 = CHR ''-'' \<and>
      list_all is_hex_char (take 4 (drop 14 s)) \<and> s ! 18 = CHR ''-'' \<and>
      list_all is_hex_char (take 4 (drop 19 s)) \<and> s ! 23 = CHR ''-'' \<and>
      list_all is_hex_char (drop 24 s))"

typedef uuid = "{s. is_uuid_text s}"
  by (rule exI [of _ "''00000000-0000-0000-0000-000000000000''"])
     (simp add: is_uuid_text_def is_hex_char_def)

definition str_uuid :: "uuid \<Rightarrow> string" where
  "str_uuid u = Rep_uuid u"

text \<open>
  \<open>models.Chunk\<close>. The field \<open>text\<close> is named \<open>chunk_text\<close>. The constructor
  validates the field types; for a UUID, an \<open>int\<close> and two strings, which is what
  the types below admit, the validation succeeds.
\<close>

record chunk =
  chunk_id :: string
  doc_id :: uuid
  page_number :: int
  chunk_text :: string

text \<open>
  A metadata value is a string or an integer; a \<open>dict\<close> with string keys is an
  association list read with \<^const>\<open>map_of\<close>, and \<open>d.get(k, default)\<close> is
  \<open>dict_get\<close>. \<open>str_value\<close> is how an f-string renders a value.
\<close>

datatype mvalue = MStr string | MInt int

type_synonym pydict = "(string \<times> mvalue) list"

definition dict_get :: "pydict \<Rightarrow> string \<Rightarrow> mvalue \<Rightarrow> mvalue" where
  "dict_get d k dflt = (case map_of d k of None \<Rightarrow> dflt | Some v \<Rightarrow> v)"

fun str_value :: "mvalue \<Rightarrow> string" where
  "str_value (MStr s) = s"
| "str_value (MInt i) = str_int i"

text \<open>
  What \<open>collection.query\<close> returns: a dict of parallel lists, one row per query
  embedding. A key whose data was not requested holds \<open>None\<close>.
\<close>

record query_result =
  qr_ids :: "string list list"
  qr_documents :: "string list list option"
  qr_metadatas :: "pydict list list option"
  qr_distances :: "rat list list option"

section \<open>External collaborators\<close>

text \<open>
  The embedding function, the ChromaDB collection and the generation service are not
  part of the repository; the functions below take them as a record of operations,
  each of which may raise. \<open>'v\<close> is the type of embedding vectors, \<open>'s\<close> the state of
  the persistent collection. \<open>get_or_create_collection\<close> yields the collection handle
  (the state the collection operations act on). A collection operation that raises
  commits nothing.
\<close>

record ('v, 's) services =
  embed_documents :: "string list \<Rightarrow> py_exception + 'v list"
  embed_query :: "string \<Rightarrow> py_exception + 'v"
  get_or_create_collection :: "'s \<Rightarrow> py_exception + 's"
  collection_add ::
    "string list \<Rightarrow> string list \<Rightarrow> 'v list \<Rightarrow> pydict list \<Rightarrow> 's \<Rightarrow> py_exception + 's"
  collection_query :: "'v list \<Rightarrow> int \<Rightarrow> pydict option \<Rightarrow> 's \<Rightarrow> py_exception + query_result"
  collection_delete :: "pydict \<Rightarrow> 's \<Rightarrow> py_exception + 's"
  generate_content :: "string \<Rightarrow> py_exception + string option"

section \<open>core/storage.py\<close>

text \<open>
  \<open>save_chunks_to_db\<close> returns the count (or the exception that escaped) together
  with the state of the store afterwards.
\<close>

definition chunk_metadata :: "pydict \<Rightarrow> chunk \<Rightarrow> pydict" where
  "chunk_metadata doc_metadata c =
     [(''doc_id'', MStr (str_uuid (doc_id c))),
      (''page_number'', MInt (page_number c)),
      (''filename'', dict_get doc_metadata ''filename'' (MStr ''unknown''))]"

definition save_chunks_to_db ::
  "('v, 's) services \<Rightarrow> chunk list \<Rightarrow> pydict \<Rightarrow> 's \<Rightarrow> (py_exception + nat) \<times> 's" where
  "save_chunks_to_db svc chunks doc_metadata st =
     (if chunks = [] then (Inr 0, st)
      else case get_or_create_collection svc st of
        Inl e \<Rightarrow> (Inl e, st)
      | Inr collection \<Rightarrow>
          (let ids = map chunk_id chunks;
               documents = map chunk_text chunks;
               metadatas = map (chunk_metadata doc_metadata) chunks
           in case embed_documents svc documents of
                Inl e \<Rightarrow> (Inl e, collection)
              | Inr embeddings \<Rightarrow>
                  (case collection_add svc ids documents embeddings metadatas collection of
                     Inl e \<Rightarrow> (Inl e, collection)
                   | Inr collection' \<Rightarrow> (Inr (length chunks), collection'))))"

text \<open>\<open>if filter_doc_id:\<close> is false for \<open>None\<close> and for the empty string.\<close>

definition query_collection ::
  "('v, 's) services \<Rightarrow> string \<Rightarrow> int \<Rightarrow> string option \<Rightarrow> 's \<Rightarrow> py_exception + query_result" where
  "query_collection svc query_text n_results filter_doc_id st =
     (case get_or_create_collection svc st of
        Inl e \<Rightarrow> Inl e
      | Inr collection \<Rightarrow>
          (case embed_query svc query_text of
             Inl e \<Rightarrow> Inl e
           | Inr query_embedding \<Rightarrow>
               (let where_filter =
                      (case filter_doc_id of
                         None \<Rightarrow> None
                       | Some d \<Rightarrow> if d \<noteq> [] then Some [(''doc_id'', MStr d)] else None)
                in collection_query svc [query_embedding] n_results where_filter collection)))"

text \<open>The \<open>try\<close> block covers both calls; any exception becomes \<open>False\<close>.\<close>

definition delete_document_chunks :: "('v, 's) services \<Rightarrow> string \<Rightarrow> 's \<Rightarrow> bool \<times> 's" where
  "delete_document_chunks svc document_id st =
     (case get_or_create_collection svc st of
        Inl e \<Rightarrow> (False, st)
      | Inr collection \<Rightarrow>
          (case collection_delete svc [(''doc_id'', MStr document_id)] collection of
             Inl e \<Rightarrow> (False, collection)
           | Inr collection' \<Rightarrow> (True, collection')))"

section \<open>core/retriever.py\<close>

definition context_separator :: string where
  "context_separator = ''\<newline>\<newline>---\<newline>\<newline>''"

text \<open>The loop over \<open>enumerate(zip(documents, metadatas))\<close>, \<open>idx\<close> counting from 0.\<close>

fun context_parts :: "nat \<Rightarrow> (string \<times> pydict) list \<Rightarrow> rat list \<Rightarrow> string list" where
  "context_parts idx [] distances = []"
| "context_parts idx ((txt, metadata) # rest) distances =
     (let pg = dict_get metadata ''page_number'' (MStr ''Unknown'');
          filename = dict_get metadata ''filename'' (MStr ''Unknown'');
          header = ''[Source: '' @ str_value filename @ '', Page '' @ str_value pg @ '']'';
          header' = (if distances \<noteq> [] \<and> idx < length distances
                     then header @ '' (Relevance: '' @ format_percent (1 - distances ! idx) @ '')''
                     else header)
      in (header' @ ''\<newline>'' @ txt) # context_parts (Suc idx) rest distances)"

text \<open>
  \<open>results["metadatas"][0]\<close> and \<open>results.get("distances", [[]])[0]\<close> raise on
  \<open>None\<close> (TypeError) and on an empty list (IndexError).
\<close>

definition get_context ::
  "('v, 's) services \<Rightarrow> string \<Rightarrow> string option \<Rightarrow> int \<Rightarrow> 's \<Rightarrow> py_exception + string" where
  "get_context svc query document_id n_results st =
     (case query_collection svc query n_results document_id st of
        Inl e \<Rightarrow> Inl e
      | Inr results \<Rightarrow>
          (case qr_documents results of
             None \<Rightarrow> Inr []
           | Some [] \<Rightarrow> Inr []
           | Some (documents # _) \<Rightarrow>
               if documents = [] then Inr []
               else (case qr_metadatas results of
                  None \<Rightarrow> Inl (PyException ''TypeError'' ''object is not subscriptable'')
                | Some [] \<Rightarrow> Inl (PyException ''IndexError'' ''list index out of range'')
                | Some (metadatas # _) \<Rightarrow>
                    (case qr_distances results of
                       None \<Rightarrow> Inl (PyException ''TypeError'' ''object is not subscriptable'')
                     | Some [] \<Rightarrow> Inl (PyException ''IndexError'' ''list index out of range'')
                     | Some (distances # _) \<Rightarrow>
                         Inr (join context_separator
                                (context_parts 0 (zip documents metadatas) distances))))))"

section \<open>core/qa_engine.py\<close>

definition SYSTEM_PROMPT :: string where
  "SYSTEM_PROMPT = ''You are a helpful assistant. Answer the question ONLY using the provided context. If the answer isn't there, say you don't know. Always cite the page numbers used.''"

definition NO_CONTEXT_ANSWER :: string where
  "NO_CONTEXT_ANSWER = ''I don't have any relevant information to answer this question. Please make sure documents have been ingested into the system.''"

definition full_prompt :: "string \<Rightarrow> string \<Rightarrow> string" where
  "full_prompt question context =
     SYSTEM_PROMPT @ ''\<newline>\<newline>CONTEXT:\<newline>'' @ context @
     ''\<newline>\<newline>QUESTION: '' @ question @ ''\<newline>\<newline>ANSWER:''"

text \<open>
  \<open>generate_answer\<close> returns the answer together with the prompts it sent to the
  generation service, in order: the empty list means the service was not invoked.
\<close>

definition generate_answer :: "('v, 's) services \<Rightarrow> string \<Rightarrow> string \<Rightarrow> string \<times> string list" where
  "generate_answer svc question context =
     (if context = [] \<or> strip context = [] then (NO_CONTEXT_ANSWER, [])
      else (let prompt = full_prompt question context
            in case generate_content svc prompt of
                 Inl e \<Rightarrow> (''Error generating answer: '' @ str_exception e, [prompt])
               | Inr None \<Rightarrow> (''I was unable to generate a response. Please try again.'', [prompt])
               | Inr (Some t) \<Rightarrow>
                   if t \<noteq> [] then (strip t, [prompt])
                   else (''I was unable to generate a response. Please try again.'', [prompt])))"

section \<open>backend/main.py\<close>

record query_request =
  question :: string
  request_doc_id :: "string option"

record query_response =
  answer :: string
  response_question :: string
  sources_used :: nat

datatype http_exception = HTTPException int string

definition query_documents ::
  "('v, 's) services \<Rightarrow> query_request \<Rightarrow> 's \<Rightarrow> (http_exception + query_response) \<times> string list" where
  "query_documents svc request st =
     (case get_context svc (question request) (request_doc_id request) 5 st of
        Inl e \<Rightarrow> (Inl (HTTPException 500 (''Error processing query: '' @ str_exception e)), [])
      | Inr context \<Rightarrow>
          if context = [] \<or> strip context = []
          then (Inr \<lparr>answer = NO_CONTEXT_ANSWER, response_question = question request,
                      sources_used = 0\<rparr>, [])
          else (let sources_count = (if context \<noteq> [] then str_count context ''---'' + 1 else 0);
                    generated = generate_answer svc (question request) context
                in (Inr \<lparr>answer = fst generated, response_question = question request,
                          sources_used = sources_count\<rparr>, snd generated)))"

section \<open>core/ingest.py\<close>

text \<open>
  A PDF read by \<open>PdfReader\<close> is the list of its pages, each given by what
  \<open>page.extract_text()\<close> does: it raises, or returns \<open>None\<close> or a string. Opening
  the file may itself raise.
\<close>

type_synonym pdf_page = "py_exception + string option"

record page =
  page_text :: string
  page_no :: int

fun extract_loop :: "nat \<Rightarrow> pdf_page list \<Rightarrow> page list" where
  "extract_loop idx [] = []"
| "extract_loop idx (p # ps) =
     (case p of
        Inl e \<Rightarrow> extract_loop (Suc idx) ps
      | Inr None \<Rightarrow> extract_loop (Suc idx) ps
      | Inr (Some t) \<Rightarrow>
          if strip t = [] then extract_loop (Suc idx) ps
          else \<lparr>page_text = strip t, page_no = int idx + 1\<rparr> # extract_loop (Suc idx) ps)"

definition extract_pdf_pages :: "string \<Rightarrow> py_exception + pdf_page list \<Rightarrow> py_exception + page list" where
  "extract_pdf_pages file_path reader =
     (case reader of
        Inl (PyException cls msg) \<Rightarrow>
          if cls = ''FileNotFoundError''
          then Inl (PyException ''FileNotFoundError'' (''PDF file not found: '' @ file_path))
          else Inl (PyException ''Exception''
                 (''Error reading PDF file '' @ [CHR 0x27] @ file_path @ [CHR 0x27] @ '': '' @ msg))
      | Inr pages \<Rightarrow> Inr (extract_loop 0 pages))"

definition get_page_count :: "string \<Rightarrow> py_exception + pdf_page list \<Rightarrow> py_exception + nat" where
  "get_page_count file_path reader =
     (case reader of
        Inl e \<Rightarrow> Inl (PyException ''Exception''
                 (''Error getting page count for '' @ [CHR 0x27] @ file_path @ [CHR 0x27] @ '': '' @
                  str_exception e))
      | Inr pages \<Rightarrow> Inr (length pages))"

section \<open>core/chunker.py\<close>

text \<open>
  The inner loop over \<open>enumerate(text_chunks)\<close> and the outer loop over the pages.
  \<open>split_text\<close> is the \<open>split_text\<close> method of the splitter the function builds.
\<close>

fun page_chunks :: "uuid \<Rightarrow> int \<Rightarrow> nat \<Rightarrow> string list \<Rightarrow> chunk list" where
  "page_chunks d pg idx [] = []"
| "page_chunks d pg idx (t # ts) =
     \<lparr>chunk_id = str_uuid d @ ''_'' @ str_int pg @ ''_'' @ str_nat idx,
      doc_id = d, page_number = pg, chunk_text = t\<rparr> # page_chunks d pg (Suc idx) ts"

fun chunk_pages :: "(string \<Rightarrow> string list) \<Rightarrow> page list \<Rightarrow> uuid \<Rightarrow> chunk list" where
  "chunk_pages split_text [] d = []"
| "chunk_pages split_text (p # ps) d =
     page_chunks d (page_no p) 0 (split_text (page_text p)) @ chunk_pages split_text ps d"

text \<open>
  \<open>text_splitter\<close> stands for the constructor of the third-party
  \<open>RecursiveCharacterTextSplitter\<close> with the separator list of the source: given
  the chunk size and the overlap it raises or yields the \<open>split_text\<close> method.
\<close>

definition chunk_document ::
  "(int \<Rightarrow> int \<Rightarrow> py_exception + (string \<Rightarrow> string list)) \<Rightarrow>
   page list \<Rightarrow> uuid \<Rightarrow> int \<Rightarrow> int \<Rightarrow> py_exception + chunk list" where
  "chunk_document text_splitter pages_data d chunk_size chunk_overlap =
     (case text_splitter chunk_size chunk_overlap of
        Inl e \<Rightarrow> Inl e
      | Inr split_text \<Rightarrow> Inr (chunk_pages split_text pages_data d))"

section \<open>A reference model of the ChromaDB collection\<close>

text \<open>
  The collection object belongs to the third-party ChromaDB library. Where a claim
  depends on what the collection does, it is settled against this model of the
  library's documented behaviour: a collection is the list of its records in
  insertion order, keyed by \<open>rec_id\<close>.
\<close>

record 'v embedding_record =
  rec_id :: string
  rec_document :: string
  rec_embedding :: 'v
  rec_metadata :: pydict

text \<open>A \<open>where\<close> filter \<open>{key: value, ...}\<close> matches metadata that holds every pair.\<close>

definition matches_where :: "pydict \<Rightarrow> pydict \<Rightarrow> bool" where
  "matches_where w md = list_all (\<lambda>kv. map_of md (fst kv) = Some (snd kv)) w"

definition selected :: "pydict option \<Rightarrow> 'v embedding_record \<Rightarrow> bool" where
  "selected w r = (case w of None \<Rightarrow> True | Some f \<Rightarrow> matches_where f (rec_metadata r))"

text \<open>
  \<open>collection.add\<close>: the four lists must be non-empty and of one length, and the
  identifiers of one call pairwise distinct, else the call raises. A record whose
  identifier is already in the collection is ignored: \<open>add\<close> never overwrites
  (that is what \<open>collection.upsert\<close> is for).
\<close>

definition new_records ::
  "string list \<Rightarrow> string list \<Rightarrow> 'v list \<Rightarrow> pydict list \<Rightarrow> 'v embedding_record list" where
  "new_records ids documents embeddings metadatas =
     map (\<lambda>(i, d, e, m). \<lparr>rec_id = i, rec_document = d, rec_embedding = e, rec_metadata = m\<rparr>)
       (zip ids (zip documents (zip embeddings metadatas)))"

definition chroma_add ::
  "string list \<Rightarrow> string list \<Rightarrow> 'v list \<Rightarrow> pydict list \<Rightarrow> 'v embedding_record list \<Rightarrow>
   py_exception + 'v embedding_record list" where
  "chroma_add ids documents embeddings metadatas coll =
     (if ids = [] then Inl (PyException ''ValueError'' ''Expected IDs to be a non-empty list'')
      else if length documents \<noteq> length ids \<or> length embeddings \<noteq> length ids
              \<or> length metadatas \<noteq> length ids
      then Inl (PyException ''ValueError'' ''Unequal lengths'')
      else if \<not> distinct ids
      then Inl (PyException ''DuplicateIDError'' ''Expected IDs to be unique'')
      else Inr (coll @ filter (\<lambda>r. rec_id r \<notin> set (map rec_id coll))
                         (new_records ids documents embeddings metadatas)))"

text \<open>
  \<open>collection.query\<close>: for each query embedding, the records the filter selects,
  nearest first, at most \<open>n_results\<close> of them; \<open>n_results\<close> must be positive.
  \<open>distance\<close> is the distance function of the collection.
\<close>

definition nearest ::
  "('v \<Rightarrow> 'v \<Rightarrow> rat) \<Rightarrow> 'v \<Rightarrow> int \<Rightarrow> pydict option \<Rightarrow> 'v embedding_record list \<Rightarrow>
   'v embedding_record list" where
  "nearest distance q n_results w coll =
     take (nat n_results) (sort_key (\<lambda>r. distance q (rec_embedding r)) (filter (selected w) coll))"

definition chroma_query ::
  "('v \<Rightarrow> 'v \<Rightarrow> rat) \<Rightarrow> 'v list \<Rightarrow> int \<Rightarrow> pydict option \<Rightarrow> 'v embedding_record list \<Rightarrow>
   py_exception + query_result" where
  "chroma_query distance query_embeddings n_results w coll =
     (if n_results \<le> 0
      then Inl (PyException ''TypeError'' ''Number of requested results cannot be negative, or zero.'')
      else Inr \<lparr>qr_ids = map (\<lambda>q. map rec_id (nearest distance q n_results w coll)) query_embeddings,
                qr_documents =
                  Some (map (\<lambda>q. map rec_document (nearest distance q n_results w coll)) query_embeddings),
                qr_metadatas =
                  Some (map (\<lambda>q. map rec_metadata (nearest distance q n_results w coll)) query_embeddings),
                qr_distances =
                  Some (map (\<lambda>q. map (\<lambda>r. distance q (rec_embedding r)) (nearest distance q n_results w coll))
                          query_embeddings)\<rparr>)"

text \<open>\<open>collection.delete(where=w)\<close> removes the records the filter matches.\<close>

definition chroma_delete ::
  "pydict \<Rightarrow> 'v embedding_record list \<Rightarrow> py_exception + 'v embedding_record list" where
  "chroma_delete w coll = Inr (filter (\<lambda>r. \<not> matches_where w (rec_metadata r)) coll)"

text \<open>
  The services of a running system: a reachable ChromaDB collection, a total embedding
  function \<open>embedder\<close> and a generation service \<open>llm\<close>.
\<close>

definition chroma ::
  "('v \<Rightarrow> 'v \<Rightarrow> rat) \<Rightarrow> (string \<Rightarrow> 'v) \<Rightarrow> (string \<Rightarrow> py_exception + string option) \<Rightarrow>
   ('v, 'v embedding_record list) services" where
  "chroma distance embedder llm =
     \<lparr>embed_documents = (\<lambda>texts. Inr (map embedder texts)),
      embed_query = (\<lambda>t. Inr (embedder t)),
      get_or_create_collection = Inr,
      collection_add = chroma_add,
      collection_query = chroma_query distance,
      collection_delete = chroma_delete,
      generate_content = llm\<rparr>"

text \<open>The records of the collection that belong to a document.\<close>

definition records_of :: "string \<Rightarrow> 'v embedding_record list \<Rightarrow> 'v embedding_record list" where
  "records_of d coll = filter (\<lambda>r. map_of (rec_metadata r) ''doc_id'' = Some (MStr d)) coll"

section \<open>Specification-side definitions\<close>

text \<open>
  The documents of the first (and only) row of a query result: the results of the
  similarity query that \<open>get_context\<close> ranks.
\<close>

definition result_documents :: "query_result \<Rightarrow> string list" where
  "result_documents r = (case qr_documents r of Some (documents # _) \<Rightarrow> documents | _ \<Rightarrow> [])"

text \<open>
  The rendering the specification describes, to be compared with the loop of
  \<open>get_context\<close>: a citation header with the filename and the page number, the
  relevance percentage of \<open>1 - distance\<close> when the result has a distance, and the
  chunk text on the next line. \<open>with_distances\<close> pairs each ranked result with its
  distance, if there is one at its rank.
\<close>

definition citation_block :: "string \<times> pydict \<times> rat option \<Rightarrow> string" where
  "citation_block item =
     (case item of (txt, metadata, d) \<Rightarrow>
        ''[Source: '' @ str_value (dict_get metadata ''filename'' (MStr ''Unknown'')) @
        '', Page '' @ str_value (dict_get metadata ''page_number'' (MStr ''Unknown'')) @ '']'' @
        (case d of None \<Rightarrow> [] | Some x \<Rightarrow> '' (Relevance: '' @ format_percent (1 - x) @ '')'') @
        ''\<newline>'' @ txt)"

fun with_distances :: "(string \<times> pydict) list \<Rightarrow> rat list \<Rightarrow> (string \<times> pydict \<times> rat option) list" where
  "with_distances [] ds = []"
| "with_distances ((t, m) # ps) [] = (t, m, None) # with_distances ps []"
| "with_distances ((t, m) # ps) (d # ds) = (t, m, Some d) # with_distances ps ds"

text \<open>
  The records a document filter admits: all of them when no filter or the empty
  string is passed, else those of the document.
\<close>

definition matching_records :: "string option \<Rightarrow> 'v embedding_record list \<Rightarrow> 'v embedding_record list" where
  "matching_records f coll =
     (case f of None \<Rightarrow> coll | Some d \<Rightarrow> if d = [] then coll else records_of d coll)"

text \<open>The chunk made of the \<open>idx\<close>-th piece of the text of page \<open>pg\<close>.\<close>

definition chunk_of :: "uuid \<Rightarrow> int \<Rightarrow> nat \<times> string \<Rightarrow> chunk" where
  "chunk_of d pg it =
     \<lparr>chunk_id = str_uuid d @ ''_'' @ str_int pg @ ''_'' @ str_nat (fst it),
      doc_id = d, page_number = pg, chunk_text = snd it\<rparr>"

section \<open>Concrete inputs\<close>

text \<open>
  A small running system on which the theorems are evaluated: embeddings are
  integers (the length of the text), the distance is a quarter of their difference,
  and the store holds two chunks of document \<open>d1\<close> and one of document \<open>d2\<close>.
\<close>

definition example_embedder :: "string \<Rightarrow> int" where
  "example_embedder t = int (length t)"

definition example_distance :: "int \<Rightarrow> int \<Rightarrow> rat" where
  "example_distance a b = of_int \<bar>a - b\<bar> / 4"

definition example_llm :: "string \<Rightarrow> py_exception + string option" where
  "example_llm prompt = Inr (Some '' It is on page 1. '')"

definition example_services :: "(int, int embedding_record list) services" where
  "example_services = chroma example_distance example_embedder example_llm"

definition example_store :: "int embedding_record list" where
  "example_store =
     [\<lparr>rec_id = ''d1_1_0'', rec_document = ''alpha---beta'', rec_embedding = 3,
       rec_metadata = [(''doc_id'', MStr ''d1''), (''page_number'', MInt 1), (''filename'', MStr ''a.pdf'')]\<rparr>,
      \<lparr>rec_id = ''d1_2_0'', rec_document = ''gamma'', rec_embedding = 1,
       rec_metadata = [(''doc_id'', MStr ''d1''), (''page_number'', MInt 2), (''filename'', MStr ''a.pdf'')]\<rparr>,
      \<lparr>rec_id = ''d2_1_0'', rec_document = ''delta'', rec_embedding = 2,
       rec_metadata = [(''doc_id'', MStr ''d2''), (''page_number'', MInt 1), (''filename'', MStr ''b.pdf'')]\<rparr>]"

definition example_doc_id :: uuid where
  "example_doc_id = Abs_uuid ''3f2504e0-4f89-41d3-9a0c-0305e82c3301''"

definition example_chunk :: chunk where
  "example_chunk =
     \<lparr>chunk_id = str_uuid example_doc_id @ ''_1_0'', doc_id = example_doc_id, page_number = 1,
      chunk_text = ''epsilon''\<rparr>"

text \<open>
  A chunk as first ingested, and the chunk with the same identifier that a
  re-ingestion of the revised page produces.
\<close>

definition stored_chunk :: chunk where
  "stored_chunk =
     \<lparr>chunk_id = str_uuid example_doc_id @ ''_2_0'', doc_id = example_doc_id, page_number = 2,
      chunk_text = ''gamma''\<rparr>"

definition revised_chunk :: chunk where
  "revised_chunk = stored_chunk\<lparr>chunk_text := ''gamma revised''\<rparr>"

text \<open>
  A splitter that returns a page text as a single chunk, as the splitter of the
  source does for the short pages used below.
\<close>

definition whole_page_splitter :: "int \<Rightarrow> int \<Rightarrow> py_exception + (string \<Rightarrow> string list)" where
  "whole_page_splitter chunk_size chunk_overlap = Inr (\<lambda>t. [t])"

section \<open>Auxiliary facts\<close>

lemma dropWhile_all: "(\<forall>x\<in>set (dropWhile P xs). P x) \<longleftrightarrow> (\<forall>x\<in>set xs. P x)"
  by (induction xs) auto

lemma strip_Nil_iff: "strip s = [] \<longleftrightarrow> (\<forall>c\<in>set s. py_isspace c)"
proof -
  have "strip s = [] \<longleftrightarrow> dropWhile py_isspace (rev (dropWhile py_isspace s)) = []"
    by (simp add: strip_def rstrip_def lstrip_def)
  also have "\<dots> \<longleftrightarrow> (\<forall>x\<in>set (dropWhile py_isspace s). py_isspace x)"
    using dropWhile_eq_Nil_conv [of py_isspace "rev (dropWhile py_isspace s)"] by simp
  also have "\<dots> \<longleftrightarrow> (\<forall>c\<in>set s. py_isspace c)"
    by (rule dropWhile_all)
  finally show ?thesis .
qed

lemma join_Cons_nonempty: "x \<noteq> [] \<Longrightarrow> join sep (x # xs) \<noteq> []"
  by (cases xs) auto

lemma context_parts_spec:
  "context_parts idx ps ds = map citation_block (with_distances ps (drop idx ds))"
proof (induction ps arbitrary: idx)
  case Nil
  show ?case by simp
next
  case (Cons p ps)
  obtain t m where p: "p = (t, m)" by (cases p)
  show ?case
  proof (cases "idx < length ds")
    case True
    then have d: "drop idx ds = ds ! idx # drop (Suc idx) ds" by (simp add: Cons_nth_drop_Suc)
    from True have ne: "ds \<noteq> []" by auto
    show ?thesis using True ne by (simp add: p d Cons.IH citation_block_def Let_def)
  next
    case False
    then have d: "drop idx ds = []" "drop (Suc idx) ds = []" by simp_all
    show ?thesis using False by (simp add: p d Cons.IH citation_block_def Let_def)
  qed
qed

lemma with_distances_Nil_iff: "with_distances ps ds = [] \<longleftrightarrow> ps = []"
  by (induction ps ds rule: with_distances.induct) auto

lemma citation_block_nonempty: "citation_block item \<noteq> []"
  by (cases item) (simp add: citation_block_def)

lemmas example_defs = example_services_def chroma_def example_store_def example_embedder_def
  example_distance_def example_llm_def

lemma example_query_all:
  "query_collection example_services ''q'' 5 None example_store =
     Inr \<lparr>qr_ids = [[''d1_2_0'', ''d2_1_0'', ''d1_1_0'']],
          qr_documents = Some [[''gamma'', ''delta'', ''alpha---beta'']],
          qr_metadatas = Some [[
            [(''doc_id'', MStr ''d1''), (''page_number'', MInt 2), (''filename'', MStr ''a.pdf'')],
            [(''doc_id'', MStr ''d2''), (''page_number'', MInt 1), (''filename'', MStr ''b.pdf'')],
            [(''doc_id'', MStr ''d1''), (''page_number'', MInt 1), (''filename'', MStr ''a.pdf'')]]],
          qr_distances = Some [[0, 1 / 4, 1 / 2]]\<rparr>"
  by (simp add: example_defs query_collection_def chroma_query_def nearest_def selected_def)

lemma example_query_empty:
  "query_collection example_services ''q'' 5 None [] =
     Inr \<lparr>qr_ids = [[]], qr_documents = Some [[]], qr_metadatas = Some [[]],
          qr_distances = Some [[]]\<rparr>"
  by (simp add: example_defs query_collection_def chroma_query_def nearest_def selected_def)

lemma fp1: "format_percent 1 = ''100.00%''"
  by (simp add: format_percent_def round_half_even_def Let_def digit_char_def)
lemma fp2: "format_percent (3 / 4) = ''75.00%''"
  by (simp add: format_percent_def round_half_even_def Let_def digit_char_def)
lemma fp3: "format_percent (1 / 2) = ''50.00%''"
  by (simp add: format_percent_def round_half_even_def Let_def digit_char_def)

lemmas save_defs = save_chunks_to_db_def chroma_add_def new_records_def chunk_metadata_def dict_get_def

lemma str_uuid_example_doc_id:
  "str_uuid example_doc_id = ''3f2504e0-4f89-41d3-9a0c-0305e82c3301''"
proof -
  have "is_uuid_text ''3f2504e0-4f89-41d3-9a0c-0305e82c3301''"
    by (simp add: is_uuid_text_def is_hex_char_def)
  then show ?thesis by (simp add: str_uuid_def example_doc_id_def Abs_uuid_inverse)
qed

lemma example_query_empty_filter:
  "query_collection example_services ''q'' 5 (Some []) example_store =
     Inr \<lparr>qr_ids = [[''d1_2_0'', ''d2_1_0'', ''d1_1_0'']],
          qr_documents = Some [[''gamma'', ''delta'', ''alpha---beta'']],
          qr_metadatas = Some [[
            [(''doc_id'', MStr ''d1''), (''page_number'', MInt 2), (''filename'', MStr ''a.pdf'')],
            [(''doc_id'', MStr ''d2''), (''page_number'', MInt 1), (''filename'', MStr ''b.pdf'')],
            [(''doc_id'', MStr ''d1''), (''page_number'', MInt 1), (''filename'', MStr ''a.pdf'')]]],
          qr_distances = Some [[0, 1 / 4, 1 / 2]]\<rparr>"
  by (simp add: example_defs query_collection_def chroma_query_def nearest_def selected_def)

lemma rec_id_new_records:
  "r \<in> set (new_records ids documents embeddings metadatas) \<Longrightarrow> rec_id r \<in> set ids"
  by (auto simp add: new_records_def dest: set_zip_leftD)

lemma filter_selected_doc:
  "filter (selected (Some [(''doc_id'', MStr d)])) coll = records_of d coll"
proof -
  have "selected (Some [(''doc_id'', MStr d)]) =
      (\<lambda>r::'a embedding_record. map_of (rec_metadata r) ''doc_id'' = Some (MStr d))"
    by (rule ext) (simp add: selected_def matches_where_def)
  then show ?thesis by (simp add: records_of_def)
qed

lemma filter_selected_None: "filter (selected None) coll = coll"
proof -
  have "selected None = (\<lambda>r::'a embedding_record. True)"
    by (rule ext) (simp add: selected_def)
  then show ?thesis by simp
qed

lemma nearest_props:
  "set (nearest distance q k w coll) \<subseteq> set (filter (selected w) coll)"
  "length (nearest distance q k w coll) = min (nat k) (length (filter (selected w) coll))"
  "sorted (map (\<lambda>r. distance q (rec_embedding r)) (nearest distance q k w coll))"
proof -
  show "set (nearest distance q k w coll) \<subseteq> set (filter (selected w) coll)"
    unfolding nearest_def using set_take_subset [of "nat k"] by (metis set_sort)
  show "length (nearest distance q k w coll) = min (nat k) (length (filter (selected w) coll))"
    by (simp add: nearest_def min.commute)
  have "sorted (map (\<lambda>r. distance q (rec_embedding r))
          (sort_key (\<lambda>r. distance q (rec_embedding r)) (filter (selected w) coll)))"
    by (rule sorted_sort_key)
  then show "sorted (map (\<lambda>r. distance q (rec_embedding r)) (nearest distance q k w coll))"
    by (simp add: nearest_def take_map [symmetric] sorted_wrt_take)
qed

lemma example_query_d1:
  "query_collection example_services ''q'' 1 (Some ''d1'') example_store =
     Inr \<lparr>qr_ids = [[''d1_2_0'']],
          qr_documents = Some [[''gamma'']],
          qr_metadatas = Some [[
            [(''doc_id'', MStr ''d1''), (''page_number'', MInt 2), (''filename'', MStr ''a.pdf'')]]],
          qr_distances = Some [[0]]\<rparr>"
  by (simp add: example_defs query_collection_def chroma_query_def nearest_def selected_def
      matches_where_def)

section \<open>The vector store\<close>

text \<open>
  Saving chunks with the collection's \<open>add\<close> never overwrites: the records already
  stored are kept as they are and records are appended only for identifiers not yet
  present. When every identifier of a batch of distinct identifiers is already
  stored, the store is left unchanged and the call still returns the number of
  input chunks.
\<close>

lemma save_existing_ids_keeps_store:
  assumes "chunks \<noteq> []" and "distinct (map chunk_id chunks)"
  shows "fst (save_chunks_to_db (chroma distance embedder llm) chunks md coll) = Inr (length chunks) \<and>
         (\<exists>added. snd (save_chunks_to_db (chroma distance embedder llm) chunks md coll) = coll @ added \<and>
                  rec_id ` set added \<subseteq> chunk_id ` set chunks - rec_id ` set coll) \<and>
         (chunk_id ` set chunks \<subseteq> rec_id ` set coll \<longrightarrow>
            save_chunks_to_db (chroma distance embedder llm) chunks md coll = (Inr (length chunks), coll) \<and>
            (\<forall>d. length (records_of d (snd (save_chunks_to_db (chroma distance embedder llm) chunks md coll)))
                 = length (records_of d coll)))"
proof -
  let ?new = "new_records (map chunk_id chunks) (map chunk_text chunks)
                (map embedder (map chunk_text chunks)) (map (chunk_metadata md) chunks)"
  let ?added = "filter (\<lambda>r. rec_id r \<notin> set (map rec_id coll)) ?new"
  have s: "save_chunks_to_db (chroma distance embedder llm) chunks md coll =
      (Inr (length chunks), coll @ ?added)"
    using assms by (simp add: save_chunks_to_db_def chroma_def chroma_add_def Let_def)
  have sub: "rec_id ` set ?added \<subseteq> chunk_id ` set chunks - rec_id ` set coll"
    using rec_id_new_records [of _ "map chunk_id chunks"] by auto
  have all: "?added = []" if h: "chunk_id ` set chunks \<subseteq> rec_id ` set coll"
  proof -
    have "\<forall>r\<in>set ?new. rec_id r \<in> set (map rec_id coll)"
    proof
      fix r
      assume "r \<in> set ?new"
      then have "rec_id r \<in> set (map chunk_id chunks)" by (rule rec_id_new_records)
      then have "rec_id r \<in> chunk_id ` set chunks" by simp
      with h have "rec_id r \<in> rec_id ` set coll" by (rule_tac subsetD)
      then show "rec_id r \<in> set (map rec_id coll)" by simp
    qed
    then show ?thesis by (simp add: filter_empty_conv)
  qed
  show ?thesis
  proof (intro conjI impI allI)
    show "fst (save_chunks_to_db (chroma distance embedder llm) chunks md coll) = Inr (length chunks)"
      unfolding s by simp
  next
    have "snd (Inr (length chunks) :: py_exception + nat, coll @ ?added) = coll @ ?added" by simp
    with sub show "\<exists>added. snd (save_chunks_to_db (chroma distance embedder llm) chunks md coll) =
        coll @ added \<and> rec_id ` set added \<subseteq> chunk_id ` set chunks - rec_id ` set coll"
      unfolding s by (intro exI [of _ ?added] conjI)
  next
    assume h: "chunk_id ` set chunks \<subseteq> rec_id ` set coll"
    show "save_chunks_to_db (chroma distance embedder llm) chunks md coll = (Inr (length chunks), coll)"
      unfolding s all [OF h] by simp
  next
    fix d
    assume h: "chunk_id ` set chunks \<subseteq> rec_id ` set coll"
    show "length (records_of d (snd (save_chunks_to_db (chroma distance embedder llm) chunks md coll))) =
        length (records_of d coll)"
      unfolding s all [OF h] by simp
  qed
qed

text \<open>
  Claim C1 fails on the code. A document is ingested and then ingested again with a
  revised text under the same chunk identifier: the second call reports one chunk
  saved, the store is exactly what it was, and the record still holds the old text.
\<close>

theorem save_chunks_to_db_keeps_stale_record:
  "save_chunks_to_db example_services [revised_chunk] [(''filename'', MStr ''a.pdf'')]
     (snd (save_chunks_to_db example_services [stored_chunk] [(''filename'', MStr ''a.pdf'')] [])) =
     (Inr 1, snd (save_chunks_to_db example_services [stored_chunk] [(''filename'', MStr ''a.pdf'')] [])) \<and>
   map rec_document
     (snd (save_chunks_to_db example_services [stored_chunk] [(''filename'', MStr ''a.pdf'')] [])) =
     [''gamma''] \<and>
   chunk_id revised_chunk = chunk_id stored_chunk \<and>
   chunk_text revised_chunk = ''gamma revised''"
  by (simp add: example_defs stored_chunk_def revised_chunk_def save_defs)

text \<open>
  Claim C2, as amended. Against the ChromaDB collection, a query that returns yields
  one row of hits for the query text: only records the filter admits (those of the
  document when a non-empty filter is passed, all records when no filter or the
  empty string is passed), at most \<open>k\<close> of them and exactly \<open>min k m\<close> when \<open>m\<close>
  records are admitted, in order of non-decreasing distance. For positive \<open>k\<close> the
  query returns rather than raises, with an empty result when nothing is admitted.
\<close>

theorem query_collection_ranked:
  "(\<forall>r. query_collection (chroma distance embedder llm) q k f coll = Inr r \<longrightarrow>
      (\<exists>hits. qr_documents r = Some [map rec_document hits] \<and>
              qr_metadatas r = Some [map rec_metadata hits] \<and>
              qr_distances r = Some [map (\<lambda>h. distance (embedder q) (rec_embedding h)) hits] \<and>
              set hits \<subseteq> set (matching_records f coll) \<and>
              length hits \<le> nat k \<and>
              length hits = min (nat k) (length (matching_records f coll)) \<and>
              sorted (map (\<lambda>h. distance (embedder q) (rec_embedding h)) hits))) \<and>
   (0 < k \<longrightarrow> (\<exists>r. query_collection (chroma distance embedder llm) q k f coll = Inr r \<and>
                   (matching_records f coll = [] \<longrightarrow> result_documents r = [])))"
proof -
  define w where "w = (case f of None \<Rightarrow> None | Some d \<Rightarrow> if d \<noteq> [] then Some [(''doc_id'', MStr d)] else None)"
  have m: "filter (selected w) coll = matching_records f coll"
    by (auto simp add: w_def matching_records_def filter_selected_doc filter_selected_None
        split: option.splits)
  have qc: "query_collection (chroma distance embedder llm) q k f coll =
      chroma_query distance [embedder q] k w coll"
    by (simp add: query_collection_def chroma_def w_def)
  let ?hits = "nearest distance (embedder q) k w coll"
  have p: "set ?hits \<subseteq> set (matching_records f coll)"
    "length ?hits = min (nat k) (length (matching_records f coll))"
    "sorted (map (\<lambda>h. distance (embedder q) (rec_embedding h)) ?hits)"
    using nearest_props [of distance "embedder q" k w coll] by (simp_all add: m)
  have a: "\<forall>r. query_collection (chroma distance embedder llm) q k f coll = Inr r \<longrightarrow>
      (\<exists>hits. qr_documents r = Some [map rec_document hits] \<and>
              qr_metadatas r = Some [map rec_metadata hits] \<and>
              qr_distances r = Some [map (\<lambda>h. distance (embedder q) (rec_embedding h)) hits] \<and>
              set hits \<subseteq> set (matching_records f coll) \<and>
              length hits \<le> nat k \<and>
              length hits = min (nat k) (length (matching_records f coll)) \<and>
              sorted (map (\<lambda>h. distance (embedder q) (rec_embedding h)) hits))"
  proof (intro allI impI)
    fix r
    assume "query_collection (chroma distance embedder llm) q k f coll = Inr r"
    then have "qr_documents r = Some [map rec_document ?hits] \<and>
              qr_metadatas r = Some [map rec_metadata ?hits] \<and>
              qr_distances r = Some [map (\<lambda>h. distance (embedder q) (rec_embedding h)) ?hits]"
      by (auto simp add: qc chroma_query_def split: if_splits)
    with p show "\<exists>hits. qr_documents r = Some [map rec_document hits] \<and>
              qr_metadatas r = Some [map rec_metadata hits] \<and>
              qr_distances r = Some [map (\<lambda>h. distance (embedder q) (rec_embedding h)) hits] \<and>
              set hits \<subseteq> set (matching_records f coll) \<and>
              length hits \<le> nat k \<and>
              length hits = min (nat k) (length (matching_records f coll)) \<and>
              sorted (map (\<lambda>h. distance (embedder q) (rec_embedding h)) hits)"
      by (intro exI [of _ ?hits]) simp
  qed
  have b: "0 < k \<longrightarrow> (\<exists>r. query_collection (chroma distance embedder llm) q k f coll = Inr r \<and>
                   (matching_records f coll = [] \<longrightarrow> result_documents r = []))"
    using p(2) by (auto simp add: qc chroma_query_def result_documents_def)
  from a b show ?thesis by blast
qed

theorem query_collection_ranked_witness:
  "query_collection example_services ''q'' 1 (Some ''d1'') example_store =
     Inr \<lparr>qr_ids = [[''d1_2_0'']],
          qr_documents = Some [[''gamma'']],
          qr_metadatas = Some [[
            [(''doc_id'', MStr ''d1''), (''page_number'', MInt 2), (''filename'', MStr ''a.pdf'')]]],
          qr_distances = Some [[0]]\<rparr> \<and>
   length (matching_records (Some ''d1'') example_store) = 2 \<and>
   (\<exists>r. query_collection example_services ''q'' 1 (Some ''d3'') example_store = Inr r \<and>
        result_documents r = [])"
  using query_collection_ranked [where distance = example_distance and embedder = example_embedder
      and llm = example_llm and q = "''q''" and k = 1 and f = "Some ''d3''" and coll = example_store]
    example_query_d1
  by (simp add: example_services_def matching_records_def records_of_def example_store_def)

text \<open>
  The claim as stated fails for the empty string: it is a supplied filter that no
  record of the store matches, yet the query returns all three records.
\<close>

theorem query_collection_filter_counterexample:
  "map_sum id qr_ids (query_collection example_services ''q'' 5 (Some []) example_store) =
     Inr [[''d1_2_0'', ''d2_1_0'', ''d1_1_0'']] \<and>
   records_of [] example_store = []"
  using example_query_empty_filter by (simp add: records_of_def example_store_def)

text \<open>
  Claim C8. \<open>delete_document_chunks\<close> never raises: a failure to reach the
  collection or of the deletion itself yields \<open>False\<close>. Against the ChromaDB
  collection it returns \<open>True\<close> and removes exactly the records whose \<open>doc_id\<close>
  metadata equals the argument, keeping the records of every other document; when
  the document has no records it returns \<open>True\<close> and changes nothing, and deleting
  twice is the same as deleting once.
\<close>

theorem delete_document_chunks_ok:
  "(\<forall>e. get_or_create_collection svc st = Inl e \<longrightarrow> delete_document_chunks svc d st = (False, st)) \<and>
   (\<forall>c e. get_or_create_collection svc st = Inr c \<longrightarrow>
      collection_delete svc [(''doc_id'', MStr d)] c = Inl e \<longrightarrow>
      delete_document_chunks svc d st = (False, c)) \<and>
   delete_document_chunks (chroma distance embedder llm) d coll =
     (True, filter (\<lambda>r. map_of (rec_metadata r) ''doc_id'' \<noteq> Some (MStr d)) coll) \<and>
   records_of d (snd (delete_document_chunks (chroma distance embedder llm) d coll)) = [] \<and>
   (\<forall>d'. d' \<noteq> d \<longrightarrow>
      records_of d' (snd (delete_document_chunks (chroma distance embedder llm) d coll)) =
      records_of d' coll) \<and>
   (records_of d coll = [] \<longrightarrow>
      delete_document_chunks (chroma distance embedder llm) d coll = (True, coll)) \<and>
   delete_document_chunks (chroma distance embedder llm) d
       (snd (delete_document_chunks (chroma distance embedder llm) d coll)) =
     (True, snd (delete_document_chunks (chroma distance embedder llm) d coll))"
proof -
  have del: "delete_document_chunks (chroma distance embedder llm) d c =
      (True, filter (\<lambda>r. map_of (rec_metadata r) ''doc_id'' \<noteq> Some (MStr d)) c)" for c
    by (simp add: delete_document_chunks_def chroma_def chroma_delete_def matches_where_def)
  have f1: "\<forall>e. get_or_create_collection svc st = Inl e \<longrightarrow> delete_document_chunks svc d st = (False, st)"
    by (simp add: delete_document_chunks_def)
  have f2: "\<forall>c e. get_or_create_collection svc st = Inr c \<longrightarrow>
      collection_delete svc [(''doc_id'', MStr d)] c = Inl e \<longrightarrow>
      delete_document_chunks svc d st = (False, c)"
    by (simp add: delete_document_chunks_def)
  have g1: "records_of d (filter (\<lambda>r. map_of (rec_metadata r) ''doc_id'' \<noteq> Some (MStr d)) coll) = []"
    by (simp add: records_of_def filter_empty_conv)
  have g2: "d' \<noteq> d \<Longrightarrow>
      records_of d' (filter (\<lambda>r. map_of (rec_metadata r) ''doc_id'' \<noteq> Some (MStr d)) coll) =
      records_of d' coll" for d'
    by (auto simp add: records_of_def intro: filter_cong)
  have g3: "records_of d coll = [] \<Longrightarrow>
      filter (\<lambda>r. map_of (rec_metadata r) ''doc_id'' \<noteq> Some (MStr d)) coll = coll"
    by (simp add: records_of_def filter_empty_conv filter_id_conv)
  have g4: "filter (\<lambda>r. map_of (rec_metadata r) ''doc_id'' \<noteq> Some (MStr d))
      (filter (\<lambda>r. map_of (rec_metadata r) ''doc_id'' \<noteq> Some (MStr d)) coll) =
      filter (\<lambda>r. map_of (rec_metadata r) ''doc_id'' \<noteq> Some (MStr d)) coll"
    by simp
  show ?thesis using f1 f2 g1 g2 g3 g4 by (simp add: del)
qed

theorem delete_document_chunks_ok_witness:
  "delete_document_chunks example_services ''d1'' example_store =
     (True, [\<lparr>rec_id = ''d2_1_0'', rec_document = ''delta'', rec_embedding = 2,
              rec_metadata = [(''doc_id'', MStr ''d2''), (''page_number'', MInt 1), (''filename'', MStr ''b.pdf'')]\<rparr>]) \<and>
   records_of ''d3'' example_store = [] \<and>
   delete_document_chunks example_services ''d3'' example_store = (True, example_store) \<and>
   delete_document_chunks
     (example_services\<lparr>collection_delete := \<lambda>w c. Inl (PyException ''ConnectionError'' ''unreachable'')\<rparr>)
     ''d1'' example_store = (False, example_store)"
  using delete_document_chunks_ok [where distance = example_distance and embedder = example_embedder
      and llm = example_llm and d = "''d3''" and coll = example_store
      and svc = "example_services\<lparr>collection_delete := \<lambda>w c. Inl (PyException ''ConnectionError'' ''unreachable'')\<rparr>"
      and st = example_store]
  by (simp add: example_defs delete_document_chunks_def chroma_delete_def matches_where_def records_of_def)

text \<open>
  Claim C9. With an empty chunk list \<open>save_chunks_to_db\<close> returns 0 and leaves the
  store as it is, whatever the collaborators would do; whenever it returns a count,
  the count is the number of input chunks; and when the collection, the embedding
  and the batch write succeed, it returns that count with the store the write
  produced.
\<close>

theorem save_chunks_to_db_count:
  "save_chunks_to_db svc [] md st = (Inr 0, st) \<and>
   (\<forall>n. fst (save_chunks_to_db svc chunks md st) = Inr n \<longrightarrow> n = length chunks) \<and>
   (\<forall>c es c'. chunks \<noteq> [] \<longrightarrow> get_or_create_collection svc st = Inr c \<longrightarrow>
      embed_documents svc (map chunk_text chunks) = Inr es \<longrightarrow>
      collection_add svc (map chunk_id chunks) (map chunk_text chunks) es
        (map (chunk_metadata md) chunks) c = Inr c' \<longrightarrow>
      save_chunks_to_db svc chunks md st = (Inr (length chunks), c'))"
  by (auto simp add: save_chunks_to_db_def Let_def split: sum.splits if_splits)

theorem save_chunks_to_db_count_witness:
  "save_chunks_to_db example_services [] [(''filename'', MStr ''c.pdf'')] example_store = (Inr 0, example_store) \<and>
   save_chunks_to_db example_services [example_chunk] [(''filename'', MStr ''c.pdf'')] example_store =
     (Inr (length [example_chunk]),
      example_store @
        [\<lparr>rec_id = str_uuid example_doc_id @ ''_1_0'', rec_document = ''epsilon'', rec_embedding = 7,
          rec_metadata = [(''doc_id'', MStr (str_uuid example_doc_id)), (''page_number'', MInt 1),
                          (''filename'', MStr ''c.pdf'')]\<rparr>])"
  using save_chunks_to_db_count [where svc = example_services and chunks = "[example_chunk]"
      and md = "[(''filename'', MStr ''c.pdf'')]" and st = example_store]
  by (simp add: example_defs example_chunk_def save_defs str_uuid_example_doc_id)

text \<open>
  Claim C10. The empty string as document filter is treated as no filter: both calls
  are the same unrestricted query of the collection.
\<close>

theorem query_collection_empty_filter:
  "query_collection svc q n (Some []) st = query_collection svc q n None st \<and>
   query_collection svc q n None st =
     (case get_or_create_collection svc st of
        Inl e \<Rightarrow> Inl e
      | Inr c \<Rightarrow> (case embed_query svc q of
                    Inl e \<Rightarrow> Inl e
                  | Inr qe \<Rightarrow> collection_query svc [qe] n None c))"
  by (simp add: query_collection_def split: sum.splits)

section \<open>Context assembly and answering\<close>

text \<open>
  Claim C3. When the query has no results \<open>get_context\<close> returns the empty string.
  Otherwise, for a result whose metadata list is as long as its document list, it
  returns the citation blocks of the results in ranked order, joined by the
  delimiter line, and that string is not empty.
\<close>

theorem get_context_renders_citations:
  assumes q: "query_collection svc qtext n f st = Inr r"
  shows "(result_documents r = [] \<longrightarrow> get_context svc qtext f n st = Inr []) \<and>
         (\<forall>metadatas ms distances ds.
            result_documents r \<noteq> [] \<longrightarrow>
            qr_metadatas r = Some (metadatas # ms) \<longrightarrow>
            qr_distances r = Some (distances # ds) \<longrightarrow>
            length metadatas = length (result_documents r) \<longrightarrow>
            get_context svc qtext f n st =
              Inr (join context_separator
                     (map citation_block
                        (with_distances (zip (result_documents r) metadatas) distances))) \<and>
            get_context svc qtext f n st \<noteq> Inr [])"
proof (intro conjI impI allI)
  assume "result_documents r = []"
  then show "get_context svc qtext f n st = Inr []"
    by (auto simp add: get_context_def q result_documents_def split: option.splits list.splits)
next
  fix metadatas ms distances ds
  assume ne: "result_documents r \<noteq> []"
    and m: "qr_metadatas r = Some (metadatas # ms)"
    and d: "qr_distances r = Some (distances # ds)"
    and len: "length metadatas = length (result_documents r)"
  from ne obtain documents rest where docs: "qr_documents r = Some (documents # rest)"
    and rd: "result_documents r = documents"
    by (auto simp add: result_documents_def split: option.splits list.splits)
  show g: "get_context svc qtext f n st =
      Inr (join context_separator
             (map citation_block (with_distances (zip (result_documents r) metadatas) distances)))"
    using ne by (simp add: get_context_def q docs rd m d context_parts_spec)
  from ne len rd have "zip documents metadatas \<noteq> []" by (cases documents; cases metadatas) auto
  then obtain it its where w: "with_distances (zip documents metadatas) distances = it # its"
    using with_distances_Nil_iff [of "zip documents metadatas" distances]
    by (cases "with_distances (zip documents metadatas) distances") auto
  have "join context_separator (map citation_block (it # its)) \<noteq> []"
    by (simp add: join_Cons_nonempty citation_block_nonempty)
  then show "get_context svc qtext f n st \<noteq> Inr []"
    using g by (simp add: rd w)
qed

theorem get_context_renders_citations_witness:
  "get_context example_services ''q'' None 5 example_store =
     Inr (''[Source: a.pdf, Page 2] (Relevance: 100.00%)\<newline>gamma'' @
          ''\<newline>\<newline>---\<newline>\<newline>'' @
          ''[Source: b.pdf, Page 1] (Relevance: 75.00%)\<newline>delta'' @
          ''\<newline>\<newline>---\<newline>\<newline>'' @
          ''[Source: a.pdf, Page 1] (Relevance: 50.00%)\<newline>alpha---beta'') \<and>
   get_context example_services ''q'' None 5 [] = Inr []"
  using get_context_renders_citations [OF example_query_all]
    get_context_renders_citations [OF example_query_empty]
  by (simp add: result_documents_def citation_block_def context_separator_def dict_get_def
      str_int_def digit_char_def fp1 fp2 fp3)

text \<open>
  Claim C4. A context that is empty or consists of whitespace only yields the fixed
  refusal and no prompt is sent to the generation service; and when the similarity
  query has no results, the query endpoint answers with the refusal, a source count
  of 0, and no call to the generation service.
\<close>

theorem generate_answer_blank_context:
  "((\<forall>c\<in>set ctx. py_isspace c) \<longrightarrow> generate_answer svc q ctx = (NO_CONTEXT_ANSWER, [])) \<and>
   (\<forall>r. query_collection svc (question req) 5 (request_doc_id req) st = Inr r \<longrightarrow>
        result_documents r = [] \<longrightarrow>
        query_documents svc req st =
          (Inr \<lparr>answer = NO_CONTEXT_ANSWER, response_question = question req, sources_used = 0\<rparr>, []))"
proof (intro conjI impI allI)
  assume "\<forall>c\<in>set ctx. py_isspace c"
  then have "strip ctx = []" by (simp add: strip_Nil_iff)
  then show "generate_answer svc q ctx = (NO_CONTEXT_ANSWER, [])"
    by (simp add: generate_answer_def)
next
  fix r
  assume q: "query_collection svc (question req) 5 (request_doc_id req) st = Inr r"
    and e: "result_documents r = []"
  from e have "get_context svc (question req) (request_doc_id req) 5 st = Inr []"
    by (auto simp add: get_context_def q result_documents_def split: option.splits list.splits)
  then show "query_documents svc req st =
      (Inr \<lparr>answer = NO_CONTEXT_ANSWER, response_question = question req, sources_used = 0\<rparr>, [])"
    by (simp add: query_documents_def)
qed

theorem generate_answer_blank_context_witness:
  "generate_answer example_services ''q'' '' \<newline> '' = (NO_CONTEXT_ANSWER, []) \<and>
   query_documents example_services \<lparr>question = ''q'', request_doc_id = None\<rparr> [] =
     (Inr \<lparr>answer = NO_CONTEXT_ANSWER, response_question = ''q'', sources_used = 0\<rparr>, [])"
proof -
  let ?req = "\<lparr>question = ''q'', request_doc_id = None\<rparr>"
  let ?r = "\<lparr>qr_ids = [[]], qr_documents = Some [[]], qr_metadatas = Some [[]],
             qr_distances = Some [[]]\<rparr>"
  note t = generate_answer_blank_context [where ctx = "'' \<newline> ''" and svc = example_services
      and q = "''q''" and req = ?req and st = "[]"]
  have a: "\<forall>c\<in>set '' \<newline> ''. py_isspace c" by (simp add: py_isspace_def)
  have b: "query_collection example_services (question ?req) 5 (request_doc_id ?req) [] = Inr ?r"
    using example_query_empty by simp
  have c: "result_documents ?r = []" by (simp add: result_documents_def)
  have g: "generate_answer example_services ''q'' '' \<newline> '' = (NO_CONTEXT_ANSWER, [])"
    using t [THEN conjunct1] a by (rule mp)
  have "query_documents example_services ?req [] =
      (Inr \<lparr>answer = NO_CONTEXT_ANSWER, response_question = question ?req, sources_used = 0\<rparr>, [])"
    using t [THEN conjunct2, THEN spec, THEN mp, THEN mp, OF b c] .
  with g show ?thesis by simp
qed

text \<open>
  Claim C7 fails on the code. The endpoint counts the occurrences of \<open>---\<close> in the
  context, so a single retrieved chunk whose text contains \<open>---\<close> is reported as
  two sources.
\<close>

theorem query_documents_counts_dashes:
  "query_documents example_services \<lparr>question = ''q'', request_doc_id = None\<rparr> [hd example_store] =
     (Inr \<lparr>answer = ''It is on page 1.'', response_question = ''q'', sources_used = 2\<rparr>,
      [full_prompt ''q'' ''[Source: a.pdf, Page 1] (Relevance: 50.00%)\<newline>alpha---beta'']) \<and>
   map_sum id (\<lambda>r. length (result_documents r))
     (query_collection example_services ''q'' 5 None [hd example_store]) = Inr 1"
  by (simp add: example_defs query_documents_def get_context_def query_collection_def
      chroma_query_def nearest_def selected_def result_documents_def context_separator_def
      dict_get_def str_int_def digit_char_def fp3 generate_answer_def str_count_def
      strip_def lstrip_def rstrip_def py_isspace_def)

section \<open>Chunking\<close>

declare str_nat.simps [simp del]

lemma digit_char_of_char: "d < 10 \<Longrightarrow> (of_char (digit_char d) :: nat) = 48 + d"
proof -
  assume "d < 10"
  then have "d = 0 \<or> d = 1 \<or> d = 2 \<or> d = 3 \<or> d = 4 \<or> d = 5 \<or> d = 6 \<or> d = 7 \<or> d = 8 \<or> d = 9"
    by presburger
  then show ?thesis by (elim disjE) (simp_all add: digit_char_def)
qed

lemma digit_char_inj: "a < 10 \<Longrightarrow> b < 10 \<Longrightarrow> digit_char a = digit_char b \<Longrightarrow> a = b"
proof -
  assume a: "a < 10" and b: "b < 10" and e: "digit_char a = digit_char b"
  have "(48::nat) + a = of_char (digit_char a)" using a by (simp add: digit_char_of_char)
  also have "\<dots> = of_char (digit_char b)" using e by simp
  also have "\<dots> = 48 + b" using b by (simp add: digit_char_of_char)
  finally show "a = b" by simp
qed

lemma digit_char_not_sep: "d < 10 \<Longrightarrow> digit_char d \<noteq> CHR ''_'' \<and> digit_char d \<noteq> CHR ''-''"
proof -
  assume d: "d < 10"
  have c: "(of_char (digit_char d) :: nat) = 48 + d" using d by (rule digit_char_of_char)
  show ?thesis
  proof (intro conjI notI)
    assume "digit_char d = CHR ''_''"
    with c have "(48::nat) + d = 95" by simp
    with d show False by simp
  next
    assume "digit_char d = CHR ''-''"
    with c have "(48::nat) + d = 45" by simp
    then show False by simp
  qed
qed

lemma str_nat_nonempty: "str_nat n \<noteq> []"
  by (subst str_nat.simps) simp

lemma str_nat_chars: "c \<in> set (str_nat n) \<Longrightarrow> \<exists>d<10. c = digit_char d"
proof (induction n rule: str_nat.induct)
  case (1 n)
  show ?case
  proof (cases "n < 10")
    case True
    then show ?thesis using "1.prems" by (auto simp add: str_nat.simps [of n])
  next
    case False
    then have "c \<in> set (str_nat (n div 10)) \<or> c = digit_char (n mod 10)"
      using "1.prems" by (auto simp add: str_nat.simps [of n])
    then show ?thesis
    proof
      assume "c \<in> set (str_nat (n div 10))"
      then show ?thesis using "1.IH" False by blast
    next
      assume "c = digit_char (n mod 10)"
      moreover have "n mod 10 < 10" by simp
      ultimately show ?thesis by blast
    qed
  qed
qed

lemma str_nat_no_underscore: "CHR ''_'' \<notin> set (str_nat n)"
proof
  assume "CHR ''_'' \<in> set (str_nat n)"
  from str_nat_chars [OF this] obtain d where "d < 10" and "CHR ''_'' = digit_char d" by blast
  with digit_char_not_sep [of d] show False by simp
qed

lemma str_nat_no_minus: "CHR ''-'' \<notin> set (str_nat n)"
proof
  assume "CHR ''-'' \<in> set (str_nat n)"
  from str_nat_chars [OF this] obtain d where "d < 10" and "CHR ''-'' = digit_char d" by blast
  with digit_char_not_sep [of d] show False by simp
qed

lemma str_nat_inj: "str_nat n = str_nat m \<Longrightarrow> n = m"
proof (induction n arbitrary: m rule: str_nat.induct)
  case (1 n)
  show ?case
  proof (cases "n < 10")
    case nt: True
    show ?thesis
    proof (cases "m < 10")
      case True
      with nt "1.prems" have "digit_char n = digit_char m"
        by (simp add: str_nat.simps [of n] str_nat.simps [of m])
      then show ?thesis using nt True by (rule_tac digit_char_inj)
    next
      case False
      with nt "1.prems" have "[digit_char n] = str_nat (m div 10) @ [digit_char (m mod 10)]"
        by (simp add: str_nat.simps [of n] str_nat.simps [of m])
      then have "str_nat (m div 10) = []" by simp
      then show ?thesis using str_nat_nonempty by blast
    qed
  next
    case nf: False
    show ?thesis
    proof (cases "m < 10")
      case True
      with nf "1.prems" have "str_nat (n div 10) @ [digit_char (n mod 10)] = [digit_char m]"
        by (simp add: str_nat.simps [of n] str_nat.simps [of m])
      then have "str_nat (n div 10) = []" by simp
      then show ?thesis using str_nat_nonempty by blast
    next
      case False
      with nf "1.prems" have
        "str_nat (n div 10) @ [digit_char (n mod 10)] = str_nat (m div 10) @ [digit_char (m mod 10)]"
        by (simp add: str_nat.simps [of n] str_nat.simps [of m])
      then have a: "str_nat (n div 10) = str_nat (m div 10)"
        and b: "digit_char (n mod 10) = digit_char (m mod 10)" by simp_all
      from a nf have "n div 10 = m div 10" by (rule "1.IH" [rotated])
      moreover from b have "n mod 10 = m mod 10" by (intro digit_char_inj) simp_all
      ultimately show ?thesis by (metis div_mult_mod_eq)
    qed
  qed
qed

lemma str_int_no_sep: "CHR ''_'' \<notin> set (str_int i)"
  by (simp add: str_int_def str_nat_no_underscore)

lemma str_int_inj: "str_int i = str_int j \<Longrightarrow> i = j"
proof -
  assume e: "str_int i = str_int j"
  have neg: "CHR ''-'' # s \<noteq> str_nat k" for s k
    using str_nat_no_minus [of k] by (metis list.set_intros(1))
  show ?thesis
  proof (cases "i < 0")
    case it: True
    show ?thesis
    proof (cases "j < 0")
      case True
      with it e have "str_nat (nat (- i)) = str_nat (nat (- j))" by (simp add: str_int_def)
      then have "nat (- i) = nat (- j)" by (rule str_nat_inj)
      with it True show ?thesis by simp
    next
      case False
      with it e show ?thesis using neg by (simp add: str_int_def)
    qed
  next
    case if': False
    show ?thesis
    proof (cases "j < 0")
      case True
      with if' e show ?thesis using neg [of "str_nat (nat (- j))" "nat i"] by (simp add: str_int_def)
    next
      case False
      with if' e have "str_nat (nat i) = str_nat (nat j)" by (simp add: str_int_def)
      then have "nat i = nat j" by (rule str_nat_inj)
      with if' False show ?thesis by simp
    qed
  qed
qed

lemma chunk_id_inj:
  assumes "d @ ''_'' @ str_int p @ ''_'' @ str_nat i = d @ ''_'' @ str_int p' @ ''_'' @ str_nat i'"
  shows "p = p' \<and> i = i'"
proof -
  from assms have "str_int p @ CHR ''_'' # str_nat i = str_int p' @ CHR ''_'' # str_nat i'" by simp
  then have "str_int p = str_int p' \<and> str_nat i = str_nat i'"
    using append_Cons_eq_iff [OF str_int_no_sep [of p] str_nat_no_underscore [of i]] by blast
  then show ?thesis using str_int_inj str_nat_inj by blast
qed

lemma page_chunks_enumerate: "page_chunks d pg idx ts = map (chunk_of d pg) (enumerate idx ts)"
  by (induction ts arbitrary: idx) (simp_all add: chunk_of_def)

lemma chunk_pages_concat:
  "chunk_pages split_text ps d =
     concat (map (\<lambda>p. map (chunk_of d (page_no p)) (enumerate 0 (split_text (page_text p)))) ps)"
  by (induction ps) (simp_all add: page_chunks_enumerate)

lemma page_chunks_mem:
  "c \<in> set (page_chunks d pg idx ts) \<Longrightarrow>
     \<exists>i. idx \<le> i \<and> chunk_id c = str_uuid d @ ''_'' @ str_int pg @ ''_'' @ str_nat i \<and> page_number c = pg"
proof (induction ts arbitrary: idx)
  case Nil
  then show ?case by simp
next
  case (Cons t ts)
  from Cons.prems have "c = chunk_of d pg (idx, t) \<or> c \<in> set (page_chunks d pg (Suc idx) ts)"
    by (auto simp add: chunk_of_def)
  then show ?case
  proof
    assume "c = chunk_of d pg (idx, t)"
    then show ?thesis by (auto simp add: chunk_of_def)
  next
    assume "c \<in> set (page_chunks d pg (Suc idx) ts)"
    from Cons.IH [OF this] show ?thesis by (meson Suc_leD)
  qed
qed

lemma page_chunks_distinct: "distinct (map chunk_id (page_chunks d pg idx ts))"
proof (induction ts arbitrary: idx)
  case Nil
  show ?case by simp
next
  case (Cons t ts)
  have "str_uuid d @ ''_'' @ str_int pg @ ''_'' @ str_nat idx \<notin> chunk_id ` set (page_chunks d pg (Suc idx) ts)"
  proof
    assume "str_uuid d @ ''_'' @ str_int pg @ ''_'' @ str_nat idx \<in> chunk_id ` set (page_chunks d pg (Suc idx) ts)"
    then obtain c where c: "c \<in> set (page_chunks d pg (Suc idx) ts)"
      and e: "chunk_id c = str_uuid d @ ''_'' @ str_int pg @ ''_'' @ str_nat idx" by auto
    from page_chunks_mem [OF c] obtain i where "Suc idx \<le> i"
      and "chunk_id c = str_uuid d @ ''_'' @ str_int pg @ ''_'' @ str_nat i" by blast
    with e chunk_id_inj [of "str_uuid d" pg idx pg i] show False by simp
  qed
  then show ?case using Cons.IH [of "Suc idx"] by simp
qed

lemma chunk_pages_mem:
  "c \<in> set (chunk_pages split_text ps d) \<Longrightarrow>
     \<exists>p\<in>set ps. \<exists>i. chunk_id c = str_uuid d @ ''_'' @ str_int (page_no p) @ ''_'' @ str_nat i \<and>
        page_number c = page_no p"
proof (induction ps)
  case Nil
  then show ?case by simp
next
  case (Cons p ps)
  from Cons.prems have "c \<in> set (page_chunks d (page_no p) 0 (split_text (page_text p)))
      \<or> c \<in> set (chunk_pages split_text ps d)" by auto
  then show ?case
  proof
    assume "c \<in> set (page_chunks d (page_no p) 0 (split_text (page_text p)))"
    from page_chunks_mem [OF this] show ?thesis by auto
  next
    assume "c \<in> set (chunk_pages split_text ps d)"
    from Cons.IH [OF this] show ?thesis by auto
  qed
qed

lemma chunk_pages_distinct:
  "distinct (map page_no ps) \<Longrightarrow> distinct (map chunk_id (chunk_pages split_text ps d))"
proof (induction ps)
  case Nil
  show ?case by simp
next
  case (Cons p ps)
  have disj: "chunk_id ` set (page_chunks d (page_no p) 0 (split_text (page_text p)))
      \<inter> chunk_id ` set (chunk_pages split_text ps d) = {}"
  proof (rule ccontr)
    assume "\<not> ?thesis"
    then obtain a b where a: "a \<in> set (page_chunks d (page_no p) 0 (split_text (page_text p)))"
      and b: "b \<in> set (chunk_pages split_text ps d)" and e: "chunk_id a = chunk_id b" by auto
    from page_chunks_mem [OF a] obtain i where
      ia: "chunk_id a = str_uuid d @ ''_'' @ str_int (page_no p) @ ''_'' @ str_nat i" by blast
    from chunk_pages_mem [OF b] obtain p' j where p': "p' \<in> set ps"
      and jb: "chunk_id b = str_uuid d @ ''_'' @ str_int (page_no p') @ ''_'' @ str_nat j" by blast
    from ia jb e chunk_id_inj [of "str_uuid d" "page_no p" i "page_no p'" j] have "page_no p = page_no p'" by simp
    with p' Cons.prems show False by auto
  qed
  from Cons.prems have "distinct (map page_no ps)" by simp
  with Cons.IH disj show ?case by (simp add: page_chunks_distinct)
qed

lemma extract_loop_page_no:
  "p \<in> set (extract_loop idx pdf) \<Longrightarrow> int idx + 1 \<le> page_no p \<and> page_no p \<le> int idx + int (length pdf)"
proof (induction pdf arbitrary: idx)
  case Nil
  then show ?case by simp
next
  case (Cons x pdf)
  from Cons.prems have "page_no p = int idx + 1 \<or> p \<in> set (extract_loop (Suc idx) pdf)"
    by (auto split: sum.splits option.splits if_splits)
  then show ?case
  proof
    assume "page_no p = int idx + 1"
    then show ?thesis by simp
  next
    assume "p \<in> set (extract_loop (Suc idx) pdf)"
    from Cons.IH [OF this] show ?thesis by simp
  qed
qed

lemma extract_loop_distinct: "distinct (map page_no (extract_loop idx pdf))"
proof (induction pdf arbitrary: idx)
  case Nil
  show ?case by simp
next
  case (Cons x pdf)
  have "int idx + 1 \<notin> page_no ` set (extract_loop (Suc idx) pdf)"
    using extract_loop_page_no [of _ "Suc idx" pdf] by fastforce
  then show ?case using Cons.IH [of "Suc idx"]
    by (simp split: sum.splits option.splits)
qed

text \<open>
  Claim C5. For the page sequence that \<open>extract_pdf_pages\<close> produces from a
  document and every document identifier, when \<open>chunk_document\<close> returns, its chunks
  are, page by page in order, the pieces the splitter makes of that page's text
  alone, the index counting from 0 on each page; every chunk belongs to exactly one
  page of the sequence; its identifier is
  \<open>{document_id}_{page_number}_{sequence_index}\<close>; the identifiers are pairwise
  distinct; and every page number lies in \<open>[1, page count]\<close>.
\<close>

theorem chunk_document_ids:
  assumes ex: "extract_pdf_pages file_path reader = Inr pages_data"
    and pc: "get_page_count file_path reader = Inr page_count"
    and cd: "chunk_document text_splitter pages_data d chunk_size chunk_overlap = Inr chunks"
  shows "(\<exists>split_text. text_splitter chunk_size chunk_overlap = Inr split_text \<and>
            chunks = concat (map (\<lambda>p. map (chunk_of d (page_no p))
                                      (enumerate 0 (split_text (page_text p)))) pages_data)) \<and>
         (\<forall>c\<in>set chunks. \<exists>!p. p \<in> set pages_data \<and> page_no p = page_number c) \<and>
         (\<forall>c\<in>set chunks. \<exists>i. chunk_id c =
            str_uuid d @ ''_'' @ str_int (page_number c) @ ''_'' @ str_nat i) \<and>
         distinct (map chunk_id chunks) \<and>
         (\<forall>c\<in>set chunks. 1 \<le> page_number c \<and> page_number c \<le> int page_count)"
proof -
  from ex obtain pdf where r: "reader = Inr pdf" and p: "pages_data = extract_loop 0 pdf"
    by (auto simp add: extract_pdf_pages_def split: sum.splits py_exception.splits if_splits)
  from pc r have n: "page_count = length pdf" by (simp add: get_page_count_def)
  from cd obtain split_text where s: "text_splitter chunk_size chunk_overlap = Inr split_text"
    and c: "chunks = chunk_pages split_text pages_data d"
    by (auto simp add: chunk_document_def split: sum.splits)
  have dp: "distinct (map page_no pages_data)"
    using p extract_loop_distinct [of 0 pdf] by simp
  have rng: "\<forall>q\<in>set pages_data. 1 \<le> page_no q \<and> page_no q \<le> int (length pdf)"
    using extract_loop_page_no [of _ 0 pdf] p by fastforce
  have mem: "\<exists>q\<in>set pages_data. \<exists>i.
      chunk_id x = str_uuid d @ ''_'' @ str_int (page_no q) @ ''_'' @ str_nat i \<and>
      page_number x = page_no q" if "x \<in> set chunks" for x
    using that c chunk_pages_mem [of x split_text pages_data d] by simp
  have a: "\<exists>split_text. text_splitter chunk_size chunk_overlap = Inr split_text \<and>
            chunks = concat (map (\<lambda>p. map (chunk_of d (page_no p))
                                      (enumerate 0 (split_text (page_text p)))) pages_data)"
    using s c chunk_pages_concat by blast
  have u: "\<forall>x\<in>set chunks. \<exists>!q. q \<in> set pages_data \<and> page_no q = page_number x"
  proof
    fix x
    assume "x \<in> set chunks"
    from mem [OF this] obtain q where q: "q \<in> set pages_data" and e: "page_number x = page_no q"
      by blast
    from dp have inj: "inj_on page_no (set pages_data)" by (simp add: distinct_map)
    show "\<exists>!q. q \<in> set pages_data \<and> page_no q = page_number x"
    proof (rule ex1I [of _ q])
      show "q \<in> set pages_data \<and> page_no q = page_number x" using q e by simp
    next
      fix q'
      assume "q' \<in> set pages_data \<and> page_no q' = page_number x"
      then have "q' \<in> set pages_data" and "page_no q' = page_no q" using e by simp_all
      with inj q show "q' = q" by (rule_tac inj_onD)
    qed
  qed
  have i: "\<forall>x\<in>set chunks. \<exists>i. chunk_id x =
      str_uuid d @ ''_'' @ str_int (page_number x) @ ''_'' @ str_nat i"
  proof
    fix x
    assume "x \<in> set chunks"
    from mem [OF this]
    show "\<exists>i. chunk_id x = str_uuid d @ ''_'' @ str_int (page_number x) @ ''_'' @ str_nat i"
    proof (elim bexE exE conjE)
      fix q k
      assume e1: "chunk_id x = str_uuid d @ ''_'' @ str_int (page_no q) @ ''_'' @ str_nat k"
        and e2: "page_number x = page_no q"
      from e1 have "chunk_id x = str_uuid d @ ''_'' @ str_int (page_number x) @ ''_'' @ str_nat k"
        unfolding e2 .
      then show "\<exists>i. chunk_id x = str_uuid d @ ''_'' @ str_int (page_number x) @ ''_'' @ str_nat i" ..
    qed
  qed
  have b: "distinct (map chunk_id chunks)"
    using c chunk_pages_distinct [OF dp] by simp
  have g: "\<forall>x\<in>set chunks. 1 \<le> page_number x \<and> page_number x \<le> int page_count"
  proof
    fix x
    assume "x \<in> set chunks"
    from mem [OF this] obtain q where "q \<in> set pages_data" and "page_number x = page_no q"
      by blast
    with rng n show "1 \<le> page_number x \<and> page_number x \<le> int page_count" by simp
  qed
  from a u i b g show ?thesis by (intro conjI)
qed

theorem chunk_document_ids_witness:
  "extract_pdf_pages ''doc.pdf'' (Inr [Inr (Some '' first ''), Inr None, Inr (Some ''third'')]) =
     Inr [\<lparr>page_text = ''first'', page_no = 1\<rparr>, \<lparr>page_text = ''third'', page_no = 3\<rparr>] \<and>
   get_page_count ''doc.pdf'' (Inr [Inr (Some '' first ''), Inr None, Inr (Some ''third'')]) = Inr 3 \<and>
   chunk_document whole_page_splitter
     [\<lparr>page_text = ''first'', page_no = 1\<rparr>, \<lparr>page_text = ''third'', page_no = 3\<rparr>]
     example_doc_id 1000 200 =
     Inr [chunk_of example_doc_id 1 (0, ''first''), chunk_of example_doc_id 3 (0, ''third'')] \<and>
   map chunk_id [chunk_of example_doc_id 1 (0, ''first''), chunk_of example_doc_id 3 (0, ''third'')] =
     [''3f2504e0-4f89-41d3-9a0c-0305e82c3301_1_0'', ''3f2504e0-4f89-41d3-9a0c-0305e82c3301_3_0''] \<and>
   distinct (map chunk_id
     [chunk_of example_doc_id 1 (0, ''first''), chunk_of example_doc_id 3 (0, ''third'')])"
proof -
  have ex: "extract_pdf_pages ''doc.pdf''
      (Inr [Inr (Some '' first ''), Inr None, Inr (Some ''third'')]) =
      Inr [\<lparr>page_text = ''first'', page_no = 1\<rparr>, \<lparr>page_text = ''third'', page_no = 3\<rparr>]"
    by (simp add: extract_pdf_pages_def strip_def lstrip_def rstrip_def py_isspace_def)
  have pc: "get_page_count ''doc.pdf''
      (Inr [Inr (Some '' first ''), Inr None, Inr (Some ''third'')]) = Inr 3"
    by (simp add: get_page_count_def)
  have cd: "chunk_document whole_page_splitter
      [\<lparr>page_text = ''first'', page_no = 1\<rparr>, \<lparr>page_text = ''third'', page_no = 3\<rparr>]
      example_doc_id 1000 200 =
      Inr [chunk_of example_doc_id 1 (0, ''first''), chunk_of example_doc_id 3 (0, ''third'')]"
    by (simp add: chunk_document_def whole_page_splitter_def chunk_of_def)
  have ids: "map chunk_id
      [chunk_of example_doc_id 1 (0, ''first''), chunk_of example_doc_id 3 (0, ''third'')] =
      [''3f2504e0-4f89-41d3-9a0c-0305e82c3301_1_0'', ''3f2504e0-4f89-41d3-9a0c-0305e82c3301_3_0'']"
    by (simp add: chunk_of_def str_uuid_example_doc_id str_int_def str_nat.simps digit_char_def)
  note t = chunk_document_ids [OF ex pc cd]
  from t have d: "distinct (map chunk_id
      [chunk_of example_doc_id 1 (0, ''first''), chunk_of example_doc_id 3 (0, ''third'')])"
    by (elim conjE)
  from ex pc cd ids d show ?thesis by (intro conjI)
qed

end
